theory Spec2Isabelle
  imports Main "HOL-Library.Sublist"
begin

section \<open>Python values used by \<open>api/app/main.py\<close>\<close>

text \<open>
  A Python \<open>str\<close> is a sequence of Unicode code points, and \<open>str.strip\<close> removes every
  code point that \<open>str.isspace\<close> accepts, not only the ASCII blanks. A string is therefore
  a list of code points (natural numbers), and \<open>py\<close> reads an ASCII literal of the source.
\<close>

type_synonym codepoint = nat
type_synonym pystr = "codepoint list"

definition py :: "string \<Rightarrow> pystr" where
  "py s = map of_char s"

abbreviation comma :: codepoint where
  "comma \<equiv> of_char CHR '',''"

text \<open>
  The whitespace table of CPython (\<open>Py_UNICODE_ISSPACE\<close>): the ASCII range uses
  \<open>_Py_ascii_whitespace\<close>, the rest \<open>_PyUnicode_IsWhitespace\<close>.
\<close>

definition isspace :: "codepoint \<Rightarrow> bool" where
  "isspace c \<longleftrightarrow>
     (0x09 \<le> c \<and> c \<le> 0x0D) \<or> (0x1C \<le> c \<and> c \<le> 0x20) \<or> c = 0x85 \<or> c = 0xA0 \<or>
     c = 0x1680 \<or> (0x2000 \<le> c \<and> c \<le> 0x200A) \<or> c = 0x2028 \<or> c = 0x2029 \<or>
     c = 0x202F \<or> c = 0x205F \<or> c = 0x3000"

text \<open>
  \<open>s.strip()\<close> with no argument: the left index moves right over whitespace, then the
  right index moves left over whitespace, and the slice between them is returned.
\<close>

definition lstrip :: "pystr \<Rightarrow> pystr" where
  "lstrip s = dropWhile isspace s"

definition rstrip :: "pystr \<Rightarrow> pystr" where
  "rstrip s = rev (dropWhile isspace (rev s))"

definition strip :: "pystr \<Rightarrow> pystr" where
  "strip s = rstrip (lstrip s)"

text \<open>
  \<open>s.split(sep)\<close> for a separator of one character, which is the only way the source calls
  it (\<open>","\<close>): the scan collects the current piece in \<open>cur\<close>, closes it at every
  separator and closes the last piece at the end of the string. No piece is dropped, so
  \<open>"".split(",")\<close> is \<open>[""]\<close> and \<open>"a,".split(",")\<close> is \<open>["a", ""]\<close>.
\<close>

fun split_from :: "codepoint \<Rightarrow> pystr \<Rightarrow> pystr \<Rightarrow> pystr list" where
  "split_from sep cur [] = [cur]"
| "split_from sep cur (c # cs) =
     (if c = sep then cur # split_from sep [] cs else split_from sep (cur @ [c]) cs)"

definition split :: "pystr \<Rightarrow> codepoint \<Rightarrow> pystr list" where
  "split s sep = split_from sep [] s"

text \<open>\<open>sep.join(pieces)\<close>, the inverse that characterises \<open>split\<close>.\<close>

fun join :: "codepoint \<Rightarrow> pystr list \<Rightarrow> pystr" where
  "join sep [] = []"
| "join sep [p] = p"
| "join sep (p # q # ps) = p @ sep # join sep (q # ps)"

text \<open>
  The process environment maps variable names to values; \<open>os.getenv(key, default)\<close>
  returns the value when the variable is set and \<open>default\<close> otherwise.
\<close>

type_synonym environ = "string \<rightharpoonup> pystr"

definition getenv :: "environ \<Rightarrow> string \<Rightarrow> pystr \<Rightarrow> pystr" where
  "getenv env key dflt = (case env key of None \<Rightarrow> dflt | Some v \<Rightarrow> v)"

section \<open>The application object\<close>

text \<open>
  The keyword arguments given to \<open>CORSMiddleware\<close>, the routes registered on the
  application, and the application itself. \<open>add_middleware\<close> puts the new middleware in
  front of the ones already registered; the decorator \<open>app.get(path)\<close> appends a route
  for the method GET.
\<close>

record cors_middleware =
  allow_origins :: "pystr list"
  allow_credentials :: bool
  allow_methods :: "pystr list"
  allow_headers :: "pystr list"

datatype http_method = GET | HEAD | POST | PUT | PATCH | DELETE | OPTIONS

datatype endpoint = Health

record route =
  path :: pystr
  methods :: "http_method list"
  endpoint :: endpoint

record fastapi =
  title :: pystr
  user_middleware :: "cors_middleware list"
  routes :: "route list"

definition FastAPI :: "pystr \<Rightarrow> fastapi" where
  "FastAPI t = \<lparr>title = t, user_middleware = [], routes = []\<rparr>"

definition add_middleware :: "fastapi \<Rightarrow> cors_middleware \<Rightarrow> fastapi" where
  "add_middleware a m = a\<lparr>user_middleware := m # user_middleware a\<rparr>"

definition get :: "fastapi \<Rightarrow> pystr \<Rightarrow> endpoint \<Rightarrow> fastapi" where
  "get a p f = a\<lparr>routes := routes a @ [\<lparr>path = p, methods = [GET], endpoint = f\<rparr>]\<rparr>"

section \<open>The module \<open>main.py\<close>\<close>

text \<open>
  The module body runs once, at import, and leaves three globals: \<open>app\<close>, \<open>allowed\<close> and
  \<open>origins\<close>. \<open>main env\<close> is that run in the environment \<open>env\<close>, statement by statement.
  \<open>allow_list\<close> is the expression of line 12, \<open>origins or ["http://localhost:3000"]\<close>:
  a list is false exactly when it is empty.
\<close>

record globals =
  app :: fastapi
  allowed :: pystr
  origins :: "pystr list"

definition allow_list :: "pystr list \<Rightarrow> pystr list" where
  "allow_list os = (if os \<noteq> [] then os else [py ''http://localhost:3000''])"

definition main :: "environ \<Rightarrow> globals" where
  "main env =
     (let app0 = FastAPI (py ''GTM Copilot API'');
          allowed0 = getenv env ''ALLOWED_ORIGINS'' (py ''http://localhost:3000'');
          origins0 = [strip x. x \<leftarrow> split allowed0 comma, strip x \<noteq> []];
          app1 = add_middleware app0
                   \<lparr>allow_origins = allow_list origins0,
                    allow_credentials = True,
                    allow_methods = [py ''*''],
                    allow_headers = [py ''*'']\<rparr>;
          app2 = get app1 (py ''/health'') Health
      in \<lparr>app = app2, allowed = allowed0, origins = origins0\<rparr>)"

text \<open>
  The handler \<open>health\<close> takes no argument and returns the dictionary
  \<open>{"status": "ok"}\<close>. It is given the module's globals and returns them with its result,
  so that what it does to them is part of its value; it has no \<open>raise\<close>, so no call ends
  in an exception.
\<close>

datatype py_error = PyException pystr

type_synonym json_object = "pystr \<rightharpoonup> pystr"

definition health :: "globals \<Rightarrow> (py_error + json_object) \<times> globals" where
  "health g = (Inr [py ''status'' \<mapsto> py ''ok''], g)"

text \<open>The policy the module installs: the middlewares of the application after the run.\<close>

definition cors_policy :: "environ \<Rightarrow> cors_middleware list" where
  "cors_policy env = user_middleware (app (main env))"

definition permitted_origins :: "environ \<Rightarrow> pystr list" where
  "permitted_origins env = concat (map allow_origins (cors_policy env))"

section \<open>The framework around the handler\<close>

text \<open>
  Modelled from the spec: the hosting web framework, which is not part of the repository
  and which "supplies request parsing, routing dispatch, and response serialization".
  Section 6 gives its answer to a routed GET request: \<open>200 OK\<close>, the handler's return value
  as body, content type JSON. A request that matches no route and a handler that raises
  are outcomes of their own; the spec gives them no status.
\<close>

record response =
  status_code :: nat
  media_type :: pystr
  body :: json_object

datatype outcome = Response response | NotRouted | HandlerRaised py_error

fun find_route :: "route list \<Rightarrow> http_method \<Rightarrow> pystr \<Rightarrow> route option" where
  "find_route [] m p = None"
| "find_route (r # rs) m p =
     (if path r = p \<and> m \<in> set (methods r) then Some r else find_route rs m p)"

fun call_endpoint :: "endpoint \<Rightarrow> globals \<Rightarrow> (py_error + json_object) \<times> globals" where
  "call_endpoint Health g = health g"

definition handle :: "globals \<Rightarrow> http_method \<Rightarrow> pystr \<Rightarrow> outcome \<times> globals" where
  "handle g m p =
     (case find_route (routes (app g)) m p of
        None \<Rightarrow> (NotRouted, g)
      | Some r \<Rightarrow>
          (case call_endpoint (endpoint r) g of
             (Inr v, g') \<Rightarrow>
               (Response \<lparr>status_code = 200, media_type = py ''application/json'', body = v\<rparr>, g')
           | (Inl e, g') \<Rightarrow> (HandlerRaised e, g')))"

text \<open>\<open>n\<close> requests \<open>GET /health\<close> one after the other, each on the globals the last one left.\<close>

fun invocations :: "nat \<Rightarrow> globals \<Rightarrow> outcome list \<times> globals" where
  "invocations 0 g = ([], g)"
| "invocations (Suc n) g =
     (let (r, g') = handle g GET (py ''/health'');
          (rs, g'') = invocations n g'
      in (r # rs, g''))"

section \<open>The derivation of the allow-list as the specification words it\<close>

text \<open>
  Section 4.1, "Build allow-list": the input is an optional environment string, with the
  default \<open>"http://localhost:3000"\<close> when the variable is absent. Split on \<open>,\<close>; strip each
  piece; drop the empty pieces; if the resulting sequence is empty, replace it with the
  one-element sequence of the default origin.
\<close>

definition spec_build_allow_list :: "pystr option \<Rightarrow> pystr list" where
  "spec_build_allow_list v =
     (let s = (case v of None \<Rightarrow> py ''http://localhost:3000'' | Some t \<Rightarrow> t);
          pieces = split s comma;
          stripped = map strip pieces;
          kept = filter (\<lambda>p. p \<noteq> []) stripped
      in if kept = [] then [py ''http://localhost:3000''] else kept)"

section \<open>Facts about \<open>split\<close> and \<open>strip\<close>\<close>

text \<open>
  \<open>split\<close> is a splitting at the separator: joining the pieces with the separator gives
  the string back, no piece holds the separator, and there is one piece more than there
  are separators. \<open>strip\<close> returns a part of its argument that neither starts nor ends
  with whitespace, and the empty string exactly for a string of whitespace.
\<close>

lemma split_from_not_Nil: "split_from sep cur s \<noteq> []"
  by (induction s arbitrary: cur) simp_all

lemma join_Cons: "ps \<noteq> [] \<Longrightarrow> join sep (p # ps) = p @ sep # join sep ps"
  by (cases ps) simp_all

lemma join_split_from: "join sep (split_from sep cur s) = cur @ s"
  by (induction s arbitrary: cur) (simp_all add: join_Cons split_from_not_Nil)

lemma join_split: "join sep (split s sep) = s"
  by (simp add: split_def join_split_from)

lemma split_from_pieces:
  "\<forall>p \<in> set (split_from sep cur s). set p \<subseteq> set cur \<union> set s"
proof (induction s arbitrary: cur)
  case Nil
  show ?case by simp
next
  case (Cons c cs)
  show ?case
  proof (cases "c = sep")
    case True
    with Cons [of "[]"] show ?thesis by auto
  next
    case False
    with Cons [of "cur @ [c]"] show ?thesis by auto
  qed
qed

lemma split_from_no_sep:
  "sep \<notin> set cur \<Longrightarrow> \<forall>p \<in> set (split_from sep cur s). sep \<notin> set p"
proof (induction s arbitrary: cur)
  case Nil
  then show ?case by simp
next
  case (Cons c cs)
  show ?case
  proof (cases "c = sep")
    case True
    with Cons.IH [of "[]"] Cons.prems show ?thesis by simp
  next
    case False
    with Cons.IH [of "cur @ [c]"] Cons.prems show ?thesis by simp
  qed
qed

lemma split_pieces: "p \<in> set (split s sep) \<Longrightarrow> set p \<subseteq> set s \<and> sep \<notin> set p"
  using split_from_pieces [of sep "[]" s] split_from_no_sep [of sep "[]" s]
  by (simp add: split_def)

lemma length_split_from: "length (split_from sep cur s) = Suc (count_list s sep)"
  by (induction s arbitrary: cur) simp_all

lemma set_strip: "set (strip s) \<subseteq> set s"
proof -
  have "set (rstrip t) \<subseteq> set t" for t
    using set_dropWhileD [of _ isspace "rev t"] by (auto simp: rstrip_def)
  moreover have "set (lstrip s) \<subseteq> set s"
    using set_dropWhileD [of _ isspace s] by (auto simp: lstrip_def)
  ultimately show ?thesis unfolding strip_def by blast
qed

lemma rstrip_prefix: "prefix (rstrip t) t"
  unfolding rstrip_def using suffix_dropWhile [of isspace "rev t"]
  by (metis rev_rev_ident suffix_to_prefix)

lemma strip_ends:
  assumes "strip s \<noteq> []"
  shows "\<not> isspace (hd (strip s))" and "\<not> isspace (last (strip s))"
proof -
  let ?t = "lstrip s"
  from assms have ne: "rstrip ?t \<noteq> []" by (simp add: strip_def)
  then have t: "?t \<noteq> []" by (auto simp: rstrip_def)
  from rstrip_prefix [of ?t] obtain zs where "?t = rstrip ?t @ zs"
    by (auto simp: prefix_def)
  with ne have "hd (rstrip ?t) = hd ?t"
    by (metis hd_append2)
  moreover from t have "\<not> isspace (hd ?t)"
    unfolding lstrip_def by (rule hd_dropWhile)
  ultimately show "\<not> isspace (hd (strip s))" by (simp add: strip_def)
  from ne have d: "dropWhile isspace (rev ?t) \<noteq> []" by (simp add: rstrip_def)
  then have "\<not> isspace (hd (dropWhile isspace (rev ?t)))" by (rule hd_dropWhile)
  with d show "\<not> isspace (last (strip s))"
    by (simp add: strip_def rstrip_def last_rev)
qed

lemma lstrip_fixed: "s \<noteq> [] \<Longrightarrow> \<not> isspace (hd s) \<Longrightarrow> lstrip s = s"
  by (cases s) (simp_all add: lstrip_def)

lemma rstrip_fixed: "s \<noteq> [] \<Longrightarrow> \<not> isspace (last s) \<Longrightarrow> rstrip s = s"
  by (cases "rev s") (simp_all add: rstrip_def last_rev)

lemma strip_fixed:
  "s \<noteq> [] \<Longrightarrow> \<not> isspace (hd s) \<Longrightarrow> \<not> isspace (last s) \<Longrightarrow> strip s = s"
  by (simp add: strip_def lstrip_fixed rstrip_fixed)

lemma rstrip_Nil_iff: "rstrip t = [] \<longleftrightarrow> (\<forall>c \<in> set t. isspace c)"
  by (simp add: rstrip_def dropWhile_eq_Nil_conv)

lemma lstrip_Nil_iff: "lstrip t = [] \<longleftrightarrow> (\<forall>c \<in> set t. isspace c)"
  by (simp add: lstrip_def dropWhile_eq_Nil_conv)

lemma strip_Nil_iff: "strip s = [] \<longleftrightarrow> (\<forall>c \<in> set s. isspace c)"
proof
  assume "\<forall>c \<in> set s. isspace c"
  then have "lstrip s = []" by (simp add: lstrip_Nil_iff)
  then show "strip s = []" by (simp add: strip_def rstrip_def)
next
  assume e: "strip s = []"
  have "lstrip s = []"
  proof (rule ccontr)
    assume ne: "lstrip s \<noteq> []"
    then have "\<not> isspace (hd (lstrip s))"
      unfolding lstrip_def by (rule hd_dropWhile)
    moreover from ne have "hd (lstrip s) \<in> set (lstrip s)" by simp
    moreover from e have "\<forall>c \<in> set (lstrip s). isspace c"
      by (simp add: strip_def rstrip_Nil_iff)
    ultimately show False by blast
  qed
  then show "\<forall>c \<in> set s. isspace c" by (simp add: lstrip_Nil_iff)
qed

lemma count_list_filter:
  "count_list (filter P xs) e = (if P e then count_list xs e else 0)"
  by (induction xs) auto

section \<open>Facts about the run\<close>

lemma comprehension_filter_map:
  "[f x. x \<leftarrow> xs, P x] = map f (filter P xs)"
  by (induction xs) simp_all

lemma allowed_main:
  "allowed (main env) = getenv env ''ALLOWED_ORIGINS'' (py ''http://localhost:3000'')"
  by (simp add: main_def Let_def)

lemma origins_main:
  "origins (main env) =
     map strip (filter (\<lambda>x. strip x \<noteq> []) (split (allowed (main env)) comma))"
  by (simp add: main_def Let_def comprehension_filter_map)

lemma origins_kept:
  "origins (main env) =
     filter (\<lambda>p. p \<noteq> []) (map strip (split (allowed (main env)) comma))"
  by (simp add: origins_main filter_map comp_def)

lemma app_main:
  "app (main env) =
     \<lparr>title = py ''GTM Copilot API'',
      user_middleware =
        [\<lparr>allow_origins = allow_list (origins (main env)),
          allow_credentials = True,
          allow_methods = [py ''*''],
          allow_headers = [py ''*'']\<rparr>],
      routes = [\<lparr>path = py ''/health'', methods = [GET], endpoint = Health\<rparr>]\<rparr>"
  by (simp add: main_def Let_def FastAPI_def add_middleware_def get_def)

lemma permitted_origins_main:
  "permitted_origins env = allow_list (origins (main env))"
  by (simp add: permitted_origins_def cors_policy_def app_main)

lemma default_origin_clean:
  "py ''http://localhost:3000'' \<noteq> []"
  "comma \<notin> set (py ''http://localhost:3000'')"
  "\<not> isspace (hd (py ''http://localhost:3000''))"
  "\<not> isspace (last (py ''http://localhost:3000''))"
  by (simp_all add: py_def isspace_def)

lemma split_default_origin:
  "split (py ''http://localhost:3000'') comma = [py ''http://localhost:3000'']"
  by (simp add: split_def py_def)

lemma handle_health:
  "handle (main env) GET (py ''/health'') =
     (Response \<lparr>status_code = 200, media_type = py ''application/json'',
                body = [py ''status'' \<mapsto> py ''ok'']\<rparr>, main env)"
  by (simp add: handle_def app_main health_def)

lemma origins_blank:
  assumes "list_all (\<lambda>c. c = comma \<or> isspace c) (allowed (main env))"
  shows "origins (main env) = []"
proof -
  have "strip p = []" if "p \<in> set (split (allowed (main env)) comma)" for p
  proof -
    from split_pieces [OF that] have "set p \<subseteq> set (allowed (main env))" "comma \<notin> set p"
      by simp_all
    with assms have "\<forall>c \<in> set p. isspace c"
      by (auto simp: list_all_iff)
    then show ?thesis by (simp add: strip_Nil_iff)
  qed
  then show ?thesis
    by (simp add: origins_main filter_empty_conv)
qed

lemma origins_unset:
  assumes "env ''ALLOWED_ORIGINS'' = None"
  shows "origins (main env) = [py ''http://localhost:3000'']"
proof -
  from assms have "allowed (main env) = py ''http://localhost:3000''"
    by (simp add: allowed_main getenv_def)
  then show ?thesis
    by (simp add: origins_main split_default_origin [simplified] strip_fixed
        default_origin_clean [simplified])
qed

lemma invocations_main:
  "invocations n (main env) =
     (replicate n (Response \<lparr>status_code = 200, media_type = py ''application/json'',
                             body = [py ''status'' \<mapsto> py ''ok'']\<rparr>), main env)"
  by (induction n) (simp_all add: handle_health fun_eq_iff)

lemmas run_simps =
  permitted_origins_main allow_list_def origins_main allowed_main getenv_def split_def
  strip_def lstrip_def rstrip_def isspace_def py_def

section \<open>The claims\<close>

text \<open>
  C1. The health operation returns, on every invocation, the JSON object with the single
  key \<open>status\<close> and the value \<open>"ok"\<close>; it returns normally (\<open>Inr\<close>, never an exception) and
  hands the globals back as it got them. A request \<open>GET /health\<close> to the application the
  module built is answered with status 200 and that object as JSON body, whatever the
  environment was at startup.
\<close>

theorem health_returns_ok:
  "(\<exists>b. health g = (Inr b, g) \<and> dom b = {py ''status''} \<and> b (py ''status'') = Some (py ''ok'')) \<and>
   (\<exists>b. handle (main env) GET (py ''/health'') =
           (Response \<lparr>status_code = 200, media_type = py ''application/json'', body = b\<rparr>, main env) \<and>
         dom b = {py ''status''} \<and> b (py ''status'') = Some (py ''ok''))"
  by (simp add: health_def handle_health)

text \<open>
  C2. For every environment, the allow-list the module passes to the policy is the one
  the specification derives from the value of \<open>ALLOWED_ORIGINS\<close>: default when absent,
  split on the comma, strip every piece, drop the empty ones, and fall back to the default
  origin when nothing is left. The source filters on the stripped piece before it strips;
  the specification strips and then filters.
\<close>

theorem allow_list_refines_spec:
  "permitted_origins env = spec_build_allow_list (env ''ALLOWED_ORIGINS'')"
proof -
  have "allowed (main env) =
          (case env ''ALLOWED_ORIGINS'' of None \<Rightarrow> py ''http://localhost:3000'' | Some t \<Rightarrow> t)"
    by (simp add: allowed_main getenv_def)
  then show ?thesis
    by (simp add: permitted_origins_main allow_list_def origins_kept
        spec_build_allow_list_def Let_def)
qed

text \<open>
  C3. If \<open>ALLOWED_ORIGINS\<close> is unset, or set to a string in which every character is a
  comma or whitespace (the empty string is such a string), the allow-list is the
  one-element list of the default origin.
\<close>

theorem blank_setting_gives_default:
  assumes "case env ''ALLOWED_ORIGINS'' of None \<Rightarrow> True
           | Some s \<Rightarrow> list_all (\<lambda>c. c = comma \<or> isspace c) s"
  shows "permitted_origins env = [py ''http://localhost:3000'']"
proof (cases "env ''ALLOWED_ORIGINS''")
  case None
  then show ?thesis
    by (simp add: permitted_origins_main origins_unset allow_list_def)
next
  case (Some s)
  with assms have "list_all (\<lambda>c. c = comma \<or> isspace c) (allowed (main env))"
    by (simp add: allowed_main getenv_def)
  then have "origins (main env) = []" by (rule origins_blank)
  then show ?thesis
    by (simp add: permitted_origins_main allow_list_def)
qed

theorem blank_setting_gives_default_witness:
  "permitted_origins Map.empty = [py ''http://localhost:3000''] \<and>
   permitted_origins [''ALLOWED_ORIGINS'' \<mapsto> []] = [py ''http://localhost:3000''] \<and>
   list_all (\<lambda>c. c = comma \<or> isspace c) (py '' , ,,  '') \<and>
   permitted_origins [''ALLOWED_ORIGINS'' \<mapsto> py '' , ,,  ''] = [py ''http://localhost:3000'']"
proof -
  have b: "list_all (\<lambda>c. c = comma \<or> isspace c) (py '' , ,,  '')"
    by (simp add: py_def isspace_def)
  show ?thesis
    using b blank_setting_gives_default [of Map.empty]
      blank_setting_gives_default [of "[''ALLOWED_ORIGINS'' \<mapsto> []]"]
      blank_setting_gives_default [of "[''ALLOWED_ORIGINS'' \<mapsto> py '' , ,,  '']"]
    by simp
qed

text \<open>
  C4. The module installs one cross-origin middleware. Its permitted origins are the
  derived allow-list (line 12), credentials are allowed, and the methods and the headers
  are the list of the wildcard \<open>"*"\<close>, which the framework reads as all methods and all
  headers.
\<close>

theorem cors_policy_applied:
  "cors_policy env =
     [\<lparr>allow_origins = allow_list (origins (main env)),
       allow_credentials = True,
       allow_methods = [py ''*''],
       allow_headers = [py ''*'']\<rparr>]"
  by (simp add: cors_policy_def app_main)

text \<open>
  C5. For every input string, the allow-list has no empty entry. When at least one piece
  of the input is not blank, the allow-list is the sequence of the stripped pieces without
  the empty ones: it is a subsequence of the stripped pieces, so their relative order is
  kept, and every non-empty entry occurs in it as often as among the stripped pieces, so
  duplicates are kept.
\<close>

theorem order_and_duplicates_kept:
  "[] \<notin> set (permitted_origins env) \<and>
   ((\<exists>p \<in> set (split (allowed (main env)) comma). strip p \<noteq> []) \<longrightarrow>
      permitted_origins env =
        filter (\<lambda>p. p \<noteq> []) (map strip (split (allowed (main env)) comma)) \<and>
      subseq (permitted_origins env) (map strip (split (allowed (main env)) comma)) \<and>
      (e \<noteq> [] \<longrightarrow>
         count_list (permitted_origins env) e =
         count_list (map strip (split (allowed (main env)) comma)) e))"
proof -
  let ?pieces = "map strip (split (allowed (main env)) comma)"
  have kept: "origins (main env) = filter (\<lambda>p. p \<noteq> []) ?pieces"
    by (rule origins_kept)
  have "[] \<notin> set (permitted_origins env)"
    by (simp add: permitted_origins_main allow_list_def kept py_def)
  moreover have "permitted_origins env = filter (\<lambda>p. p \<noteq> []) ?pieces"
    if "\<exists>p \<in> set (split (allowed (main env)) comma). strip p \<noteq> []"
  proof -
    from that have "filter (\<lambda>p. p \<noteq> []) ?pieces \<noteq> []"
      by (auto simp: filter_empty_conv)
    then show ?thesis
      by (simp add: permitted_origins_main allow_list_def kept)
  qed
  ultimately show ?thesis
    by (auto simp: count_list_filter)
qed

theorem order_and_duplicates_kept_witness:
  "permitted_origins [''ALLOWED_ORIGINS'' \<mapsto> py ''b, a,,b , ''] = [py ''b'', py ''a'', py ''b''] \<and>
   map strip (split (py ''b, a,,b , '') comma) = [py ''b'', py ''a'', [], py ''b'', []] \<and>
   subseq [py ''b'', py ''a'', py ''b''] [py ''b'', py ''a'', [], py ''b'', []] \<and>
   count_list [py ''b'', py ''a'', py ''b''] (py ''b'') = 2 \<and>
   count_list [py ''b'', py ''a'', [], py ''b'', []] (py ''b'') = 2"
proof -
  let ?env = "[''ALLOWED_ORIGINS'' \<mapsto> py ''b, a,,b , '']"
  have a: "allowed (main ?env) = py ''b, a,,b , ''"
    by (simp add: allowed_main getenv_def)
  have p: "map strip (split (py ''b, a,,b , '') comma) = [py ''b'', py ''a'', [], py ''b'', []]"
    by (simp add: run_simps)
  have o: "permitted_origins ?env = [py ''b'', py ''a'', py ''b'']"
    by (simp add: run_simps)
  have c: "count_list [py ''b'', py ''a'', py ''b''] (py ''b'') = 2"
    by (simp add: py_def)
  have h: "\<exists>p \<in> set (split (allowed (main ?env)) comma). strip p \<noteq> []"
    unfolding a by (simp add: run_simps)
  have n: "py ''b'' \<noteq> []" by (simp add: py_def)
  from order_and_duplicates_kept [of ?env "py ''b''"] h n
  have "subseq (permitted_origins ?env) (map strip (split (allowed (main ?env)) comma)) \<and>
        count_list (permitted_origins ?env) (py ''b'') =
        count_list (map strip (split (allowed (main ?env)) comma)) (py ''b'')"
    by blast
  then have s: "subseq [py ''b'', py ''a'', py ''b''] [py ''b'', py ''a'', [], py ''b'', []] \<and>
        count_list [py ''b'', py ''a'', py ''b''] (py ''b'') =
        count_list [py ''b'', py ''a'', [], py ''b'', []] (py ''b'')"
    by (simp only: a p o)
  from o p s c show ?thesis by metis
qed

text \<open>
  C6. With \<open>ALLOWED_ORIGINS = "https://a.com, https://b.com"\<close> the allow-list is
  \<open>["https://a.com", "https://b.com"]\<close>.
\<close>

theorem example_two_origins:
  "permitted_origins [''ALLOWED_ORIGINS'' \<mapsto> py ''https://a.com, https://b.com''] =
     [py ''https://a.com'', py ''https://b.com'']"
  by (simp add: run_simps)

text \<open>
  C7. The health operation is deterministic and changes nothing: its result does not
  depend on the globals it is called on, it returns them as they were, and calling it on
  the globals it returned gives the same again. The answer to \<open>GET /health\<close> is the same
  for every startup environment, and \<open>n\<close> requests in a row give \<open>n\<close> times that answer and
  leave the globals as the module built them.
\<close>

theorem health_idempotent:
  "fst (health g) = fst (health g') \<and> snd (health g) = g \<and> health (snd (health g)) = health g \<and>
   fst (handle (main env) GET (py ''/health'')) = fst (handle (main env') GET (py ''/health'')) \<and>
   invocations n (main env) = (replicate n (fst (handle (main env) GET (py ''/health''))), main env)"
  by (simp add: health_def handle_health invocations_main)

text \<open>
  C8. For every environment, with \<open>ALLOWED_ORIGINS\<close> set or not, the allow-list given to
  the single cross-origin middleware is not empty: its length is at least 1.
\<close>

theorem allow_list_nonempty:
  "(\<exists>m. cors_policy env = [m] \<and> allow_origins m = permitted_origins env) \<and>
   permitted_origins env \<noteq> [] \<and> 1 \<le> length (permitted_origins env)"
proof -
  have "permitted_origins env \<noteq> []"
    by (simp add: permitted_origins_main allow_list_def)
  then show ?thesis
    by (cases "permitted_origins env") (simp_all add: permitted_origins_def cors_policy_def app_main)
qed

text \<open>
  C9. Unsetting \<open>ALLOWED_ORIGINS\<close> and setting it to the empty string give the same
  allow-list, whatever the rest of the environment. Unset, \<open>origins\<close> already is the default
  origin alone, through the default of \<open>getenv\<close>; empty, \<open>origins\<close> is the empty list and
  the \<open>or\<close> of line 12 puts the default origin in.
\<close>

theorem unset_same_as_empty:
  "origins (main (env(''ALLOWED_ORIGINS'' := None))) = [py ''http://localhost:3000''] \<and>
   origins (main (env(''ALLOWED_ORIGINS'' \<mapsto> []))) = [] \<and>
   permitted_origins (env(''ALLOWED_ORIGINS'' := None)) = [py ''http://localhost:3000''] \<and>
   permitted_origins (env(''ALLOWED_ORIGINS'' \<mapsto> [])) = [py ''http://localhost:3000''] \<and>
   permitted_origins (env(''ALLOWED_ORIGINS'' := None)) =
     permitted_origins (env(''ALLOWED_ORIGINS'' \<mapsto> []))"
proof -
  have u: "origins (main (env(''ALLOWED_ORIGINS'' := None))) = [py ''http://localhost:3000'']"
    by (rule origins_unset) simp
  have e: "origins (main (env(''ALLOWED_ORIGINS'' \<mapsto> []))) = []"
    by (rule origins_blank) (simp add: allowed_main getenv_def)
  from u e show ?thesis
    by (simp add: permitted_origins_main allow_list_def)
qed

text \<open>
  C10. Every entry of the allow-list is free of commas, is not empty, and neither starts
  nor ends with whitespace, so that stripping it again changes nothing.
\<close>

theorem entries_clean:
  assumes "e \<in> set (permitted_origins env)"
  shows "comma \<notin> set e \<and> e \<noteq> [] \<and> \<not> isspace (hd e) \<and> \<not> isspace (last e) \<and> strip e = e"
proof (cases "origins (main env) = []")
  case True
  with assms have "e = py ''http://localhost:3000''"
    by (simp add: permitted_origins_main allow_list_def)
  then show ?thesis
    using default_origin_clean by (simp add: strip_fixed)
next
  case False
  with assms have "e \<in> set (origins (main env))"
    by (simp add: permitted_origins_main allow_list_def)
  then obtain p where p: "p \<in> set (split (allowed (main env)) comma)"
    and e: "e = strip p" and ne: "strip p \<noteq> []"
    by (auto simp: origins_main)
  from split_pieces [OF p] have "comma \<notin> set p" by simp
  with set_strip [of p] have "comma \<notin> set (strip p)" by blast
  moreover from strip_ends [OF ne] have "\<not> isspace (hd (strip p))" "\<not> isspace (last (strip p))" .
  ultimately show ?thesis
    using ne e by (simp add: strip_fixed)
qed

theorem entries_clean_witness:
  "py ''https://b.com'' \<in> set (permitted_origins [''ALLOWED_ORIGINS'' \<mapsto> py ''https://a.com, https://b.com '']) \<and>
   comma \<notin> set (py ''https://b.com'') \<and> py ''https://b.com'' \<noteq> [] \<and>
   \<not> isspace (hd (py ''https://b.com'')) \<and> \<not> isspace (last (py ''https://b.com'')) \<and>
   strip (py ''https://b.com'') = py ''https://b.com''"
proof -
  have m: "py ''https://b.com'' \<in>
             set (permitted_origins [''ALLOWED_ORIGINS'' \<mapsto> py ''https://a.com, https://b.com ''])"
    by (simp add: run_simps)
  from entries_clean [OF m] m show ?thesis by simp
qed

end
